theory Spec2Isabelle
  imports Main
begin

section \<open>The Landing AI Go SDK: regions, client construction, error classification, submit\<close>

text \<open>
  A shallow embedding of the Go package \<open>landingai\<close>: the region resolver, the client
  constructor with its functional options, the error types with their predicates, and the
  request builder with its terminal operation \<open>Do\<close>.

  Go strings and byte slices are byte sequences, modelled as \<open>string\<close> (a list of 8-bit
  characters). A Go \<open>int\<close> is modelled as \<open>int\<close>; no arithmetic is done on status codes,
  so no overflow can occur. A nil pointer or nil slice is \<open>None\<close>. A panic is the value
  \<open>Panic\<close> of the type \<open>outcome\<close>.
\<close>

type_synonym bytes = string

datatype 'a outcome = Return 'a | Panic

subsection \<open>Regions\<close>

text \<open>\<open>type Region string\<close>: every string is a region tag.\<close>

type_synonym Region = string

definition RegionUS :: Region where
  "RegionUS = ''us''"

definition RegionEU :: Region where
  "RegionEU = ''eu''"

definition baseURLUS :: string where
  "baseURLUS = ''https://api.va.landing.ai''"

definition baseURLEU :: string where
  "baseURLEU = ''https://api.va.eu-west-1.landing.ai''"

text \<open>\<open>func (r Region) BaseURL() string\<close>: a switch with a default branch.\<close>

definition Region_BaseURL :: "Region \<Rightarrow> string" where
  "Region_BaseURL r =
     (if r = RegionEU then baseURLEU
      else if r = RegionUS then baseURLUS
      else baseURLUS)"

definition Region_String :: "Region \<Rightarrow> string" where
  "Region_String r = r"

subsection \<open>Client and its options\<close>

text \<open>
  Of \<open>http.Client\<close> only the timeout (a \<open>time.Duration\<close>, in nanoseconds) is kept.
  The field \<open>httpClient\<close> of the client is a pointer: \<open>None\<close> is nil.
\<close>

record HTTPClient =
  Timeout :: int

definition DefaultTimeout :: int where
  "DefaultTimeout = 300 * 1000000000"

record Client =
  apiKey :: string
  baseURL :: string
  httpClient :: "HTTPClient option"
  region :: Region

text \<open>
  \<open>type ClientOption func(*Client)\<close>. The fields of \<open>Client\<close> are unexported, so the
  closures that change them are the four the package builds; \<open>NilOption\<close> is the nil
  function value, whose call panics. \<open>WithTimeout\<close> writes through the \<open>httpClient\<close>
  pointer and panics when it is nil.
\<close>

datatype ClientOption =
    WithRegion Region
  | WithBaseURL string
  | WithHTTPClient "HTTPClient option"
  | WithTimeout int
  | NilOption

fun apply_option :: "ClientOption \<Rightarrow> Client \<Rightarrow> Client outcome" where
  "apply_option (WithRegion r) c = Return (c\<lparr>region := r, baseURL := Region_BaseURL r\<rparr>)"
| "apply_option (WithBaseURL u) c = Return (c\<lparr>baseURL := u\<rparr>)"
| "apply_option (WithHTTPClient h) c = Return (c\<lparr>httpClient := h\<rparr>)"
| "apply_option (WithTimeout t) c =
     (case httpClient c of
        None \<Rightarrow> Panic
      | Some h \<Rightarrow> Return (c\<lparr>httpClient := Some (h\<lparr>Timeout := t\<rparr>)\<rparr>))"
| "apply_option NilOption c = Panic"

text \<open>The loop \<open>for _, opt := range opts { opt(client) }\<close>.\<close>

fun apply_options :: "ClientOption list \<Rightarrow> Client \<Rightarrow> Client outcome" where
  "apply_options [] c = Return c"
| "apply_options (opt # opts) c =
     (case apply_option opt c of
        Panic \<Rightarrow> Panic
      | Return c' \<Rightarrow> apply_options opts c')"

definition NewClient :: "string \<Rightarrow> ClientOption list \<Rightarrow> Client outcome" where
  "NewClient key opts =
     (case apply_options opts
             \<lparr>apiKey = key, baseURL = [],
              httpClient = Some \<lparr>Timeout = DefaultTimeout\<rparr>, region = RegionUS\<rparr> of
        Panic \<Rightarrow> Panic
      | Return client \<Rightarrow>
          Return (if baseURL client = [] then client\<lparr>baseURL := Region_BaseURL (region client)\<rparr>
                  else client))"

text \<open>
  The options that write the field \<open>baseURL\<close>, and the explicit overrides among them
  (used to state which option was applied last).
\<close>

fun writes_baseURL :: "ClientOption \<Rightarrow> bool" where
  "writes_baseURL (WithRegion r) = True"
| "writes_baseURL (WithBaseURL u) = True"
| "writes_baseURL opt = False"

fun is_override :: "ClientOption \<Rightarrow> bool" where
  "is_override (WithBaseURL u) = True"
| "is_override opt = False"

subsection \<open>JSON values\<close>

text \<open>
  The value a JSON text denotes. An object keeps its members in the order of the text,
  duplicates included, since the decoder of \<open>encoding/json\<close> visits them in that order.
  A number keeps its literal. A Go value of type \<open>interface{}\<close> that was decoded from
  JSON without error is represented by the JSON value it was decoded from: \<open>JNull\<close> is the
  nil interface, \<open>JString\<close> a Go string, \<open>JNumber\<close> the \<open>float64\<close> that the
  literal converts to (the arithmetic of the conversion is not modelled, only whether it
  succeeds).
\<close>

datatype json =
    JNull
  | JBool bool
  | JNumber string
  | JString string
  | JArray "json list"
  | JObject "(string \<times> json) list"

subsection \<open>Status codes and error types\<close>

definition StatusOK :: int where "StatusOK = 200"
definition StatusPartialContent :: int where "StatusPartialContent = 206"
definition StatusBadRequest :: int where "StatusBadRequest = 400"
definition StatusUnauthorized :: int where "StatusUnauthorized = 401"
definition StatusPaymentRequired :: int where "StatusPaymentRequired = 402"
definition StatusUnprocessableEntity :: int where "StatusUnprocessableEntity = 422"
definition StatusTooManyRequests :: int where "StatusTooManyRequests = 429"
definition StatusInternalServerError :: int where "StatusInternalServerError = 500"
definition StatusGatewayTimeout :: int where "StatusGatewayTimeout = 504"

record APIError =
  StatusCode :: int
  Message :: string
  Detail :: json

definition IsUnauthorized :: "APIError \<Rightarrow> bool" where
  "IsUnauthorized e = (APIError.StatusCode e = StatusUnauthorized)"

definition IsPaymentRequired :: "APIError \<Rightarrow> bool" where
  "IsPaymentRequired e = (APIError.StatusCode e = StatusPaymentRequired)"

definition IsRateLimited :: "APIError \<Rightarrow> bool" where
  "IsRateLimited e = (APIError.StatusCode e = StatusTooManyRequests)"

definition IsBadRequest :: "APIError \<Rightarrow> bool" where
  "IsBadRequest e = (APIError.StatusCode e = StatusBadRequest)"


definition IsServerError :: "APIError \<Rightarrow> bool" where
  "IsServerError e = (APIError.StatusCode e \<ge> StatusInternalServerError)"

definition IsTimeout :: "APIError \<Rightarrow> bool" where
  "IsTimeout e = (APIError.StatusCode e = StatusGatewayTimeout)"

definition IsPartialContent :: "APIError \<Rightarrow> bool" where
  "IsPartialContent e = (APIError.StatusCode e = StatusPartialContent)"

text \<open>
  \<open>ValidationError\<close> with its JSON tags \<open>loc\<close>, \<open>msg\<close>, \<open>type\<close>, and
  \<open>ValidationErrors\<close> with its tag \<open>detail\<close>.
\<close>

record ValidationError =
  Location :: "json list"
  Message :: string
  Type :: string

record ValidationErrors =
  Detail :: "ValidationError list"

text \<open>
  \<open>func (v *ValidationErrors) Error() string\<close>; \<open>fmt.Sprintf\<close> with the verb \<open>%s\<close>
  on a string inserts it unchanged.
\<close>

definition ValidationErrors_Error :: "ValidationErrors \<Rightarrow> string" where
  "ValidationErrors_Error v =
     (case ValidationErrors.Detail v of
        [] \<Rightarrow> ''validation error''
      | d # ds \<Rightarrow> ''validation error: '' @ ValidationError.Message d)"

text \<open>
  Go errors as values. \<open>ErrorString\<close> is what \<open>fmt.Errorf\<close> returns for a format
  without \<open>%w\<close>; \<open>WrapError p e\<close> is \<open>fmt.Errorf(p + "%w", e)\<close>, which keeps \<open>e\<close>
  reachable for \<open>errors.As\<close>; \<open>Library\<close> is an error value of the standard library
  (\<open>os\<close>, \<open>io\<close>, \<open>net/http\<close>, \<open>encoding/json\<close>), opaque but for its text.
\<close>

datatype library_error = LibraryError string

datatype go_error =
    ErrorString string
  | WrapError string go_error
  | Library library_error
  | APIErr APIError
  | ValidationErrs ValidationErrors

text \<open>\<open>errors.As(err, &apiErr)\<close> for a target of type \<open>*APIError\<close>.\<close>

fun asAPIError :: "go_error \<Rightarrow> APIError option" where
  "asAPIError (APIErr e) = Some e"
| "asAPIError (WrapError p e) = asAPIError e"
| "asAPIError e = None"

subsection \<open>Decoding JSON into the error records\<close>

text \<open>
  \<open>json.Unmarshal\<close> first checks the syntax of the whole text and then stores the value
  into the target, directed by the target's type. Two parts of it belong to the standard
  library and are parameters of the model: the syntax of JSON texts (\<open>parse\<close>, the
  collaborator \<open>parseJSON\<close> below) and the test whether a number literal converts to a
  \<open>float64\<close> (\<open>fits\<close>, the collaborator \<open>fitsFloat64\<close>; \<open>strconv.ParseFloat\<close> reports
  a range error for a literal such as \<open>1e999\<close>). The type-directed part is determined by
  the declarations of \<open>ValidationErrors\<close>, \<open>ValidationError\<close> and
  \<open>map[string]interface{}\<close> and is written out here:
  \<^item> a member of an object is stored into the field whose name equals the key, or else
    into the first field whose name equals it up to case folding; other members are
    skipped, and nothing in them is converted;
  \<^item> \<open>null\<close> leaves a string or a struct as it is and resets a slice or a map to nil;
  \<^item> a value of the wrong kind records an error;
  \<^item> every number stored into an \<open>interface{}\<close>, at any depth, is converted to
    \<open>float64\<close>, and a literal that does not fit records an error;
  \<^item> an array stored into a slice decodes its element at index \<open>i\<close> into what the
    backing array of the slice holds at \<open>i\<close>: an element of the slice, an element that an
    earlier, longer array left behind the length of the slice, or the zero value.
  After recording an error the decoder goes on, and \<open>Unmarshal\<close> returns the error at
  the end; \<open>handleErrorResponse\<close> then does not look at the target. So a decoding function
  returns \<open>None\<close> when an error is recorded, and the value stored in that case is not
  modelled.
\<close>

definition asciiUpper :: "char \<Rightarrow> char" where
  "asciiUpper c =
     (case map_of (zip ''abcdefghijklmnopqrstuvwxyz'' ''ABCDEFGHIJKLMNOPQRSTUVWXYZ'') c of
        Some u \<Rightarrow> u
      | None \<Rightarrow> c)"

text \<open>
  Case folding of a member name, on its UTF-8 bytes: an ASCII letter goes to upper case;
  U+017F (bytes C5 BF) folds to \<open>S\<close> and U+212A (bytes E2 84 AA) to \<open>K\<close>, the only
  code points outside ASCII that fold to an ASCII letter. Other bytes are kept, which
  agrees with the library on whether a name folds to an ASCII field name.
\<close>

fun foldName :: "string \<Rightarrow> string" where
  "foldName [] = []"
| "foldName (c # cs) =
     (if c = CHR 0xC5 \<and> take 1 cs = [CHR 0xBF] then CHR ''S'' # foldName (drop 1 cs)
      else if c = CHR 0xE2 \<and> take 2 cs = [CHR 0x84, CHR 0xAA] then CHR ''K'' # foldName (drop 2 cs)
      else asciiUpper c # foldName cs)"

definition fieldByName :: "string list \<Rightarrow> string \<Rightarrow> string option" where
  "fieldByName names key =
     (case find (\<lambda>f. f = key) names of
        Some f \<Rightarrow> Some f
      | None \<Rightarrow> find (\<lambda>f. foldName f = foldName key) names)"

text \<open>
  Storing a JSON value into an \<open>interface{}\<close> records no error exactly when every number
  in it, at any depth, converts to \<open>float64\<close>.
\<close>

fun numbers_fit :: "(string \<Rightarrow> bool) \<Rightarrow> json \<Rightarrow> bool" where
  "numbers_fit fits (JNumber s) = fits s"
| "numbers_fit fits (JArray xs) = list_all (numbers_fit fits) xs"
| "numbers_fit fits (JObject ms) = list_all (numbers_fit fits) (map snd ms)"
| "numbers_fit fits j = True"

text \<open>A field of type \<open>string\<close>, holding \<open>old\<close>.\<close>

fun decodeString :: "json \<Rightarrow> string \<Rightarrow> string option" where
  "decodeString (JString s) old = Some s"
| "decodeString JNull old = Some old"
| "decodeString j old = None"

text \<open>
  A field of type \<open>[]interface{}\<close>: every element of the array replaces what the slice
  held at its index.
\<close>

fun decodeInterfaceSlice :: "(string \<Rightarrow> bool) \<Rightarrow> json \<Rightarrow> json list option" where
  "decodeInterfaceSlice fits (JArray xs) =
     (if list_all (numbers_fit fits) xs then Some xs else None)"
| "decodeInterfaceSlice fits JNull = Some []"
| "decodeInterfaceSlice fits j = None"

definition zeroValidationError :: ValidationError where
  "zeroValidationError = \<lparr>Location = [], Message = [], Type = []\<rparr>"

definition decodeMember_ValidationError ::
  "(string \<Rightarrow> bool) \<Rightarrow> string \<times> json \<Rightarrow> ValidationError \<Rightarrow> ValidationError option" where
  "decodeMember_ValidationError fits m v =
     (case m of (key, j) \<Rightarrow>
        (case fieldByName [''loc'', ''msg'', ''type''] key of
           None \<Rightarrow> Some v
         | Some f \<Rightarrow>
             if f = ''loc'' then
               (case decodeInterfaceSlice fits j of
                  None \<Rightarrow> None
                | Some l \<Rightarrow> Some (v\<lparr>Location := l\<rparr>))
             else if f = ''msg'' then
               (case decodeString j (ValidationError.Message v) of
                  None \<Rightarrow> None
                | Some s \<Rightarrow> Some (v\<lparr>ValidationError.Message := s\<rparr>))
             else
               (case decodeString j (Type v) of
                  None \<Rightarrow> None
                | Some s \<Rightarrow> Some (v\<lparr>Type := s\<rparr>))))"

text \<open>The members of an object, in the order of the text, stored into the struct \<open>v\<close>.\<close>

fun decodeMembers_ValidationError ::
  "(string \<Rightarrow> bool) \<Rightarrow> (string \<times> json) list \<Rightarrow> ValidationError \<Rightarrow> ValidationError option" where
  "decodeMembers_ValidationError fits [] v = Some v"
| "decodeMembers_ValidationError fits (m # ms) v =
     (case decodeMember_ValidationError fits m v of
        None \<Rightarrow> None
      | Some v' \<Rightarrow> decodeMembers_ValidationError fits ms v')"

fun decode_ValidationError ::
  "(string \<Rightarrow> bool) \<Rightarrow> json \<Rightarrow> ValidationError \<Rightarrow> ValidationError option" where
  "decode_ValidationError fits (JObject ms) v = decodeMembers_ValidationError fits ms v"
| "decode_ValidationError fits JNull v = Some v"
| "decode_ValidationError fits j v = None"

text \<open>
  The elements of an array, stored over the backing array \<open>backing\<close>: the element at an
  index the backing array has is decoded into what is there, a further one starts from the
  zero value.
\<close>

fun decodeElements ::
  "(string \<Rightarrow> bool) \<Rightarrow> json list \<Rightarrow> ValidationError list \<Rightarrow> ValidationError list option" where
  "decodeElements fits [] backing = Some []"
| "decodeElements fits (j # js) backing =
     (case decode_ValidationError fits j
             (case backing of [] \<Rightarrow> zeroValidationError | e # es \<Rightarrow> e) of
        None \<Rightarrow> None
      | Some e' \<Rightarrow>
          (case decodeElements fits js (tl backing) of
             None \<Rightarrow> None
           | Some es' \<Rightarrow> Some (e' # es')))"

text \<open>
  A slice of \<open>ValidationError\<close> is kept as its elements together with the elements that
  its backing array holds behind its length. An empty array and \<open>null\<close> give a slice with
  a new, empty backing array; a shorter array leaves the rest of the slice behind the new
  length.
\<close>

type_synonym ValidationError_slice = "ValidationError list \<times> ValidationError list"

fun decodeSlice_ValidationError ::
  "(string \<Rightarrow> bool) \<Rightarrow> json \<Rightarrow> ValidationError_slice \<Rightarrow> ValidationError_slice option" where
  "decodeSlice_ValidationError fits (JArray js) sl =
     (if js = [] then Some ([], [])
      else
        (case decodeElements fits js (fst sl @ snd sl) of
           None \<Rightarrow> None
         | Some es \<Rightarrow> Some (es, drop (length js) (fst sl @ snd sl))))"
| "decodeSlice_ValidationError fits JNull sl = Some ([], [])"
| "decodeSlice_ValidationError fits j sl = None"

text \<open>
  The struct \<open>ValidationErrors\<close> has the one field \<open>Detail\<close>, so while it is decoded it
  is kept as that slice.
\<close>

definition decodeMember_ValidationErrors ::
  "(string \<Rightarrow> bool) \<Rightarrow> string \<times> json \<Rightarrow> ValidationError_slice \<Rightarrow> ValidationError_slice option" where
  "decodeMember_ValidationErrors fits m sl =
     (case m of (key, j) \<Rightarrow>
        (case fieldByName [''detail''] key of
           None \<Rightarrow> Some sl
         | Some f \<Rightarrow> decodeSlice_ValidationError fits j sl))"

fun decodeMembers_ValidationErrors ::
  "(string \<Rightarrow> bool) \<Rightarrow> (string \<times> json) list \<Rightarrow> ValidationError_slice \<Rightarrow> ValidationError_slice option" where
  "decodeMembers_ValidationErrors fits [] sl = Some sl"
| "decodeMembers_ValidationErrors fits (m # ms) sl =
     (case decodeMember_ValidationErrors fits m sl of
        None \<Rightarrow> None
      | Some sl' \<Rightarrow> decodeMembers_ValidationErrors fits ms sl')"

fun decode_ValidationErrors ::
  "(string \<Rightarrow> bool) \<Rightarrow> json \<Rightarrow> ValidationError_slice \<Rightarrow> ValidationError_slice option" where
  "decode_ValidationErrors fits (JObject ms) sl = decodeMembers_ValidationErrors fits ms sl"
| "decode_ValidationErrors fits JNull sl = Some sl"
| "decode_ValidationErrors fits j sl = None"

text \<open>
  \<open>var valErr ValidationErrors; json.Unmarshal(body, &valErr)\<close>: \<open>None\<close> when the error
  returned is not nil, and otherwise the value of \<open>valErr\<close>.
\<close>

definition Unmarshal_ValidationErrors ::
  "(bytes \<Rightarrow> library_error + json) \<Rightarrow> (string \<Rightarrow> bool) \<Rightarrow> bytes \<Rightarrow> ValidationErrors option" where
  "Unmarshal_ValidationErrors parse fits body =
     (case parse body of
        Inl e \<Rightarrow> None
      | Inr j \<Rightarrow>
          (case decode_ValidationErrors fits j ([], []) of
             None \<Rightarrow> None
           | Some sl \<Rightarrow> Some \<lparr>ValidationErrors.Detail = fst sl\<rparr>))"

text \<open>
  \<open>var errorDetail map[string]interface{}; json.Unmarshal(body, &errorDetail)\<close>. Every
  member value is stored into an \<open>interface{}\<close>. Of two members with the same key the
  later one stays in the map.
\<close>

fun decode_map :: "(string \<Rightarrow> bool) \<Rightarrow> json \<Rightarrow> (string \<rightharpoonup> json) option" where
  "decode_map fits (JObject ms) =
     (if list_all (numbers_fit fits) (map snd ms) then Some (map_of (rev ms)) else None)"
| "decode_map fits JNull = Some Map.empty"
| "decode_map fits j = None"

definition Unmarshal_map ::
  "(bytes \<Rightarrow> library_error + json) \<Rightarrow> (string \<Rightarrow> bool) \<Rightarrow> bytes \<Rightarrow> (string \<rightharpoonup> json) option" where
  "Unmarshal_map parse fits body =
     (case parse body of
        Inl e \<Rightarrow> None
      | Inr j \<Rightarrow> decode_map fits j)"

subsection \<open>The error classifier\<close>

text \<open>\<open>fmt.Sprintf\<close> with the verb \<open>%d\<close>: the decimal digits, with a sign when negative.\<close>

fun decimal :: "nat \<Rightarrow> string" where
  "decimal n =
     (if n < 10 then [''0123456789'' ! n]
      else decimal (n div 10) @ [''0123456789'' ! (n mod 10)])"

declare decimal.simps [simp del]

definition Sprintf_d :: "int \<Rightarrow> string" where
  "Sprintf_d i = (if i < 0 then CHR ''-'' # decimal (nat (- i)) else decimal (nat i))"

definition getErrorMessage :: "int \<Rightarrow> string" where
  "getErrorMessage statusCode =
     (if statusCode = StatusBadRequest then ''Bad request: Invalid request parameters''
      else if statusCode = StatusUnauthorized then ''Unauthorized: Invalid or missing API key''
      else if statusCode = StatusPaymentRequired then ''Payment required: Insufficient credits''
      else if statusCode = StatusUnprocessableEntity then
        ''Unprocessable entity: Input validation failed''
      else if statusCode = StatusTooManyRequests then ''Too many requests: Rate limit exceeded''
      else if statusCode = StatusInternalServerError then
        ''Internal server error: Failed to process document''
      else if statusCode = StatusGatewayTimeout then
        ''Gateway timeout: Request processing exceeded time limit''
      else ''API request failed with status '' @ Sprintf_d statusCode)"

text \<open>
  \<open>handleErrorResponse\<close>. The field \<open>Detail\<close> of the new \<open>APIError\<close> starts as the
  nil interface and stays nil when the body is an object without the key \<open>detail\<close>.
\<close>

definition handleErrorResponse ::
  "(bytes \<Rightarrow> library_error + json) \<Rightarrow> (string \<Rightarrow> bool) \<Rightarrow> int \<Rightarrow> bytes \<Rightarrow> go_error" where
  "handleErrorResponse parse fits statusCode body =
     (case (if statusCode = StatusUnprocessableEntity
            then Unmarshal_ValidationErrors parse fits body else None) of
        Some valErr \<Rightarrow> ValidationErrs valErr
      | None \<Rightarrow>
          APIErr \<lparr>APIError.StatusCode = statusCode,
                  APIError.Message = getErrorMessage statusCode,
                  APIError.Detail =
                    (case Unmarshal_map parse fits body of
                       Some errorDetail \<Rightarrow>
                         (case errorDetail ''detail'' of
                            Some detail \<Rightarrow> detail
                          | None \<Rightarrow> JNull)
                     | None \<Rightarrow> JString body)\<rparr>)"

subsection \<open>Requests, responses and the collaborators of submit\<close>

text \<open>
  A multipart body is kept as the list of its parts, in the order they were written:
  \<open>Field name value\<close> for \<open>writer.WriteField\<close>, \<open>FormFile field filename content\<close>
  for \<open>writer.CreateFormFile\<close> followed by the write of the content. The encoding of
  the parts between boundaries is the library's; only the boundary string shows, in the
  content type.
\<close>

datatype part =
    Field string string
  | FormFile string string bytes

text \<open>A \<open>context.Context\<close> is an interface value: nil, or an opaque handle.\<close>

datatype Context = NilContext | ContextHandle nat

record Request =
  Method :: string
  URL :: string
  Ctx :: Context
  Header :: "(string \<times> string) list"
  Body :: "part list"

text \<open>
  A response as \<open>Do\<close> uses it: the status code and what \<open>io.ReadAll(resp.Body)\<close>
  returns.
\<close>

record Response =
  StatusCode :: int
  Body :: "library_error + bytes"

text \<open>
  What submit consumes from outside the package: the file system (\<open>os.ReadFile\<close>), the
  URL parser inside \<open>http.NewRequestWithContext\<close> (\<open>None\<close> when the URL is accepted),
  the random boundary of the multipart writer, the HTTP client (\<open>httpClient.Do\<close>), the
  JSON syntax, the test whether a number literal converts to a \<open>float64\<close>, and the
  type-directed decoding of a JSON value into a \<open>ParseResponse\<close> (the success record
  \<open>'r\<close>, which has floating-point fields and is left abstract).
\<close>

record 'r collaborators =
  ReadFile :: "string \<Rightarrow> library_error + bytes"
  parseURL :: "string \<Rightarrow> library_error option"
  boundary :: string
  httpDo :: "HTTPClient \<Rightarrow> Request \<Rightarrow> library_error + Response"
  parseJSON :: "bytes \<Rightarrow> library_error + json"
  fitsFloat64 :: "string \<Rightarrow> bool"
  decodeParseResponse :: "json \<Rightarrow> library_error + 'r"

text \<open>The effects of a call of \<open>Do\<close>, in the order they happen.\<close>

datatype event =
    FileRead string
  | HTTPCall Request

text \<open>
  \<open>http.NewRequestWithContext\<close> for a valid method: a nil context is refused, then the
  URL is parsed.
\<close>

definition NewRequestWithContext ::
  "'r collaborators \<Rightarrow> Context \<Rightarrow> string \<Rightarrow> string \<Rightarrow> part list \<Rightarrow> library_error + Request" where
  "NewRequestWithContext env c method url body =
     (if c = NilContext then Inl (LibraryError ''net/http: nil Context'')
      else
        (case parseURL env url of
           Some e \<Rightarrow> Inl e
         | None \<Rightarrow> Inr \<lparr>Method = method, URL = url, Ctx = c, Header = [], Body = body\<rparr>))"

definition FormDataContentType :: "'r collaborators \<Rightarrow> string" where
  "FormDataContentType env = ''multipart/form-data; boundary='' @ boundary env"

text \<open>
  \<open>filepath.Base\<close> where the path separator is the slash: trailing slashes are
  stripped, then everything up to the last slash.
\<close>

definition IsPathSeparator :: "char \<Rightarrow> bool" where
  "IsPathSeparator c = (c = CHR ''/'')"

definition Base :: "string \<Rightarrow> string" where
  "Base path =
     (if path = [] then ''.''
      else
        (let stripped = rev (dropWhile IsPathSeparator (rev path));
             element = rev (takeWhile (\<lambda>c. \<not> IsPathSeparator c) (rev stripped))
         in if element = [] then ''/'' else element))"

subsection \<open>The request builder\<close>

type_synonym SplitType = string

definition SplitTypePage :: SplitType where
  "SplitTypePage = ''page''"

text \<open>
  The pointer fields \<open>client\<close>, \<open>model\<close>, \<open>documentURL\<close> and \<open>split\<close> and the slice
  \<open>fileData\<close> are \<open>None\<close> when nil; an empty but non-nil slice is \<open>Some []\<close>.
\<close>

record ParseRequestBuilder =
  client :: "Client option"
  ctx :: Context
  model :: "string option"
  documentURL :: "string option"
  filePath :: string
  fileData :: "bytes option"
  fileName :: string
  split :: "SplitType option"

definition Parse :: "Client \<Rightarrow> Context \<Rightarrow> ParseRequestBuilder" where
  "Parse c context =
     \<lparr>client = Some c, ctx = context, model = None, documentURL = None, filePath = [],
      fileData = None, fileName = [], split = None\<rparr>"

definition WithModel :: "string \<Rightarrow> ParseRequestBuilder \<Rightarrow> ParseRequestBuilder" where
  "WithModel m b = b\<lparr>model := Some m\<rparr>"

definition WithURL :: "string \<Rightarrow> ParseRequestBuilder \<Rightarrow> ParseRequestBuilder" where
  "WithURL u b = b\<lparr>documentURL := Some u\<rparr>"

definition WithFile :: "string \<Rightarrow> ParseRequestBuilder \<Rightarrow> ParseRequestBuilder" where
  "WithFile path b = b\<lparr>filePath := path\<rparr>"

definition WithFileData :: "bytes option \<Rightarrow> string \<Rightarrow> ParseRequestBuilder \<Rightarrow> ParseRequestBuilder" where
  "WithFileData data filename b = b\<lparr>fileData := data, fileName := filename\<rparr>"

definition WithSplit :: "SplitType \<Rightarrow> ParseRequestBuilder \<Rightarrow> ParseRequestBuilder" where
  "WithSplit s b = b\<lparr>split := Some s\<rparr>"

definition WithPageSplit :: "ParseRequestBuilder \<Rightarrow> ParseRequestBuilder" where
  "WithPageSplit b = b\<lparr>split := Some SplitTypePage\<rparr>"

text \<open>
  \<open>buildURLRequest\<close>; it dereferences \<open>b.documentURL\<close>. Writes to the in-memory buffer
  of the multipart writer do not fail.
\<close>

definition buildURLRequest ::
  "'r collaborators \<Rightarrow> ParseRequestBuilder \<Rightarrow> string \<Rightarrow> (go_error + Request) outcome" where
  "buildURLRequest env b url =
     (case documentURL b of
        None \<Rightarrow> Panic
      | Some u \<Rightarrow>
          (let body = [Field ''document_url'' u]
                 @ (case model b of None \<Rightarrow> [] | Some m \<Rightarrow> [Field ''model'' m])
                 @ (case split b of None \<Rightarrow> [] | Some s \<Rightarrow> [Field ''split'' s])
           in case NewRequestWithContext env (ctx b) ''POST'' url body of
                Inl e \<Rightarrow> Return (Inl (Library e))
              | Inr req \<Rightarrow>
                  Return (Inr (req\<lparr>Header := [(''Content-Type'', FormDataContentType env)]\<rparr>))))"

text \<open>\<open>buildFileRequest\<close>, with the file reads it performs.\<close>

definition buildFileRequest ::
  "'r collaborators \<Rightarrow> ParseRequestBuilder \<Rightarrow> string \<Rightarrow> event list \<times> (go_error + Request) outcome" where
  "buildFileRequest env b url =
     (case (case fileData b of
              Some d \<Rightarrow> ([], Inr (d, fileName b))
            | None \<Rightarrow>
                ([FileRead (filePath b)],
                 (case ReadFile env (filePath b) of
                    Inl e \<Rightarrow> Inl (WrapError ''failed to read file: '' (Library e))
                  | Inr d \<Rightarrow> Inr (d, Base (filePath b))))) of
        (t, Inl err) \<Rightarrow> (t, Return (Inl err))
      | (t, Inr (data, name)) \<Rightarrow>
          (let body = [FormFile ''document'' name data]
                 @ (case model b of None \<Rightarrow> [] | Some m \<Rightarrow> [Field ''model'' m])
                 @ (case split b of None \<Rightarrow> [] | Some s \<Rightarrow> [Field ''split'' s])
           in case NewRequestWithContext env (ctx b) ''POST'' url body of
                Inl e \<Rightarrow> (t, Return (Inl (Library e)))
              | Inr req \<Rightarrow>
                  (t, Return (Inr (req\<lparr>Header := [(''Content-Type'', FormDataContentType env)]\<rparr>)))))"

text \<open>
  \<open>buildRequest\<close>; it dereferences \<open>b.client\<close>, and \<open>req.WithContext\<close> panics on a nil
  context.
\<close>

definition buildRequest ::
  "'r collaborators \<Rightarrow> ParseRequestBuilder \<Rightarrow> event list \<times> (go_error + Request) outcome" where
  "buildRequest env b =
     (case client b of
        None \<Rightarrow> ([], Panic)
      | Some c \<Rightarrow>
          (let url = baseURL c @ ''/v1/ade/parse'' in
           case (if documentURL b \<noteq> None then ([], buildURLRequest env b url)
                 else buildFileRequest env b url) of
             (t, Panic) \<Rightarrow> (t, Panic)
           | (t, Return (Inl err)) \<Rightarrow> (t, Return (Inl err))
           | (t, Return (Inr req)) \<Rightarrow>
               if ctx b = NilContext then (t, Panic)
               else (t, Return (Inr (req\<lparr>Header := Header req @ [(''Authorization'', ''Bearer '' @ apiKey c)],
                                          Ctx := ctx b\<rparr>)))))"

text \<open>
  \<open>Do\<close>, the terminal operation: the effects performed and the result, \<open>Inl\<close> for
  \<open>(nil, err)\<close> and \<open>Inr\<close> for \<open>(&parseResp, nil)\<close>. Calling \<open>Do\<close> on a nil
  \<open>httpClient\<close> panics before anything is sent.
\<close>

definition Do ::
  "'r collaborators \<Rightarrow> ParseRequestBuilder \<Rightarrow> event list \<times> (go_error + 'r) outcome" where
  "Do env b =
     (if documentURL b \<noteq> None \<and> (filePath b \<noteq> [] \<or> fileData b \<noteq> None) then
        ([], Return (Inl (ErrorString ''cannot provide both document URL and file'')))
      else if documentURL b = None \<and> filePath b = [] \<and> fileData b = None then
        ([], Return (Inl (ErrorString ''must provide either document URL or file'')))
      else
        (case buildRequest env b of
           (t, Panic) \<Rightarrow> (t, Panic)
         | (t, Return (Inl err)) \<Rightarrow> (t, Return (Inl (WrapError ''failed to build request: '' err)))
         | (t, Return (Inr req)) \<Rightarrow>
             (case (case client b of None \<Rightarrow> None | Some c \<Rightarrow> httpClient c) of
                None \<Rightarrow> (t, Panic)
              | Some h \<Rightarrow>
                  (case httpDo env h req of
                     Inl e \<Rightarrow>
                       (t @ [HTTPCall req],
                        Return (Inl (WrapError ''failed to execute request: '' (Library e))))
                   | Inr resp \<Rightarrow>
                       (t @ [HTTPCall req],
                        (case Response.Body resp of
                           Inl e \<Rightarrow>
                             Return (Inl (WrapError ''failed to read response body: '' (Library e)))
                         | Inr body \<Rightarrow>
                             if Response.StatusCode resp < 200 \<or> Response.StatusCode resp \<ge> 300 then
                               Return (Inl (handleErrorResponse (parseJSON env)
                                              (fitsFloat64 env) (Response.StatusCode resp) body))
                             else
                               (case parseJSON env body of
                                  Inl e \<Rightarrow>
                                    Return (Inl (WrapError ''failed to parse response: '' (Library e)))
                                | Inr j \<Rightarrow>
                                    (case decodeParseResponse env j of
                                       Inl e \<Rightarrow>
                                         Return (Inl (WrapError ''failed to parse response: ''
                                                        (Library e)))
                                     | Inr parseResp \<Rightarrow> Return (Inr parseResp)))))))))"

subsection \<open>Notions used to state the properties\<close>











text \<open>The top-level member of an object that a Go map keeps for a key: the last one.\<close>

definition member :: "(string \<times> json) list \<Rightarrow> string \<Rightarrow> json option" where
  "member ms key = map_of (rev ms) key"

text \<open>The errors that come from the classifier.\<close>

fun classified :: "go_error \<Rightarrow> bool" where
  "classified (APIErr e) = True"
| "classified (ValidationErrs v) = True"
| "classified e = False"

text \<open>The text fields that both request builders add after the document part.\<close>

definition optional_fields :: "ParseRequestBuilder \<Rightarrow> part list" where
  "optional_fields b =
     (case model b of None \<Rightarrow> [] | Some m \<Rightarrow> [Field ''model'' m])
     @ (case split b of None \<Rightarrow> [] | Some s \<Rightarrow> [Field ''split'' s])"

text \<open>
  The last step of \<open>Do\<close>, once a response with status \<open>s\<close> has been received and its
  body read.
\<close>

definition interpretResponse :: "'r collaborators \<Rightarrow> int \<Rightarrow> bytes \<Rightarrow> (go_error + 'r) outcome" where
  "interpretResponse env s body =
     (if s < 200 \<or> s \<ge> 300 then
        Return (Inl (handleErrorResponse (parseJSON env) (fitsFloat64 env) s body))
      else
        (case parseJSON env body of
           Inl e \<Rightarrow> Return (Inl (WrapError ''failed to parse response: '' (Library e)))
         | Inr j \<Rightarrow>
             (case decodeParseResponse env j of
                Inl e \<Rightarrow> Return (Inl (WrapError ''failed to parse response: '' (Library e)))
              | Inr parseResp \<Rightarrow> Return (Inr parseResp))))"

subsection \<open>Sample collaborators\<close>

text \<open>
  A finite part of the JSON syntax, enough for the examples: the four texts listed denote
  the values given, and the examples use no other text that is valid JSON. Of the number
  literals in them only \<open>1e999\<close> does not convert to a \<open>float64\<close>.
\<close>

definition sample_parseJSON :: "bytes \<Rightarrow> library_error + json" where
  \<open>sample_parseJSON text =
     (if text = ''{"error":"boom"}'' then Inr (JObject [(''error'', JString ''boom'')])
      else if text = ''{"detail":"something else"}'' then
        Inr (JObject [(''detail'', JString ''something else'')])
      else if text = ''{"detail":[{"loc":["body","model"],"msg":"bad model","type":"value_error"}]}'' then
        Inr (JObject [(''detail'', JArray [JObject
          [(''loc'', JArray [JString ''body'', JString ''model'']),
           (''msg'', JString ''bad model''),
           (''type'', JString ''value_error'')]])])
      else if text = ''{"detail":"x","n":1e999}'' then
        Inr (JObject [(''detail'', JString ''x''), (''n'', JNumber ''1e999'')])
      else Inl (LibraryError ''invalid character''))\<close>

definition sample_fitsFloat64 :: "string \<Rightarrow> bool" where
  "sample_fitsFloat64 literal = (literal \<noteq> ''1e999'')"

text \<open>
  A file system with one file, a URL parser that accepts every URL, and a server that
  answers an upload with status 206 and a body that is not JSON, and a request by document
  URL with status 422 and a \<open>detail\<close> string. The success record is the JSON value itself.
\<close>

definition sample_world :: "json collaborators" where
  \<open>sample_world =
     \<lparr>ReadFile = (\<lambda>path. if path = ''docs/report.pdf'' then Inr ''%PDF-1.7''
                         else Inl (LibraryError ''no such file or directory'')),
      parseURL = (\<lambda>url. None),
      boundary = ''b0'',
      httpDo = (\<lambda>h req.
        (case Request.Body req of
           FormFile field name content # ps \<Rightarrow>
             Inr \<lparr>Response.StatusCode = 206, Response.Body = Inr ''<html>''\<rparr>
         | other \<Rightarrow>
             Inr \<lparr>Response.StatusCode = 422,
                  Response.Body = Inr ''{"detail":"something else"}''\<rparr>)),
      parseJSON = sample_parseJSON,
      fitsFloat64 = sample_fitsFloat64,
      decodeParseResponse = Inr\<rparr>\<close>

definition sample_client :: Client where
  "sample_client =
     \<lparr>apiKey = ''key'', baseURL = ''https://api.va.landing.ai'',
      httpClient = Some \<lparr>Timeout = DefaultTimeout\<rparr>, region = RegionUS\<rparr>"

text \<open>
  An upload of in-memory bytes by a builder that also has a file path, the request it
  sends, and an upload by path alone.
\<close>

definition sample_upload :: ParseRequestBuilder where
  "sample_upload =
     WithFileData (Some ''%PDF-1.7'') ''scan.pdf''
       (WithFile ''docs/report.pdf'' (Parse sample_client (ContextHandle 0)))"

definition sample_upload_request :: Request where
  "sample_upload_request =
     \<lparr>Method = ''POST'', URL = ''https://api.va.landing.ai/v1/ade/parse'', Ctx = ContextHandle 0,
      Header = [(''Content-Type'', ''multipart/form-data; boundary=b0''),
                (''Authorization'', ''Bearer key'')],
      Body = [FormFile ''document'' ''scan.pdf'' ''%PDF-1.7'']\<rparr>"

definition sample_path_upload :: ParseRequestBuilder where
  "sample_path_upload = WithFile ''docs/report.pdf'' (Parse sample_client (ContextHandle 0))"

definition sample_path_request :: Request where
  "sample_path_request =
     \<lparr>Method = ''POST'', URL = ''https://api.va.landing.ai/v1/ade/parse'', Ctx = ContextHandle 0,
      Header = [(''Content-Type'', ''multipart/form-data; boundary=b0''),
                (''Authorization'', ''Bearer key'')],
      Body = [FormFile ''document'' ''report.pdf'' ''%PDF-1.7'']\<rparr>"

section \<open>Properties\<close>

subsection \<open>Region resolution\<close>

text \<open>
  C7. Base-URL resolution is a total function without an error result: the US tag gives
  \<open>https://api.va.landing.ai\<close>, the EU tag gives \<open>https://api.va.eu-west-1.landing.ai\<close>,
  and every other tag, the empty one included, gives the US URL.
\<close>

theorem Region_BaseURL_table:
  "Region_BaseURL RegionUS = ''https://api.va.landing.ai'' \<and>
   Region_BaseURL RegionEU = ''https://api.va.eu-west-1.landing.ai'' \<and>
   Region_BaseURL [] = ''https://api.va.landing.ai'' \<and>
   (\<forall>r. r \<noteq> RegionEU \<longrightarrow> Region_BaseURL r = ''https://api.va.landing.ai'')"
  by (simp add: Region_BaseURL_def RegionUS_def RegionEU_def baseURLUS_def baseURLEU_def)

theorem Region_BaseURL_table_witness:
  "''fr'' \<noteq> RegionEU \<and> Region_BaseURL ''fr'' = ''https://api.va.landing.ai''"
proof -
  have other: "''fr'' \<noteq> RegionEU" by (simp add: RegionEU_def)
  from Region_BaseURL_table have "''fr'' \<noteq> RegionEU \<longrightarrow> Region_BaseURL ''fr'' = ''https://api.va.landing.ai''"
    by blast
  with other show ?thesis by simp
qed

subsection \<open>Predicates of an API error\<close>

text \<open>
  C8. The classification predicates of an \<open>APIError\<close> depend on its status code only:
  \<open>IsUnauthorized\<close> holds exactly for 401, \<open>IsBadRequest\<close> for 400, \<open>IsRateLimited\<close> for
  429, \<open>IsServerError\<close> from 500 upwards and \<open>IsTimeout\<close> for 504. So an error with
  status 401 is unauthorized and not a bad request, and one with status 504 is both a
  timeout and a server error.
\<close>

theorem APIError_predicates:
  "IsUnauthorized e = (APIError.StatusCode e = 401) \<and>
   IsBadRequest e = (APIError.StatusCode e = 400) \<and>
   IsRateLimited e = (APIError.StatusCode e = 429) \<and>
   IsServerError e = (APIError.StatusCode e \<ge> 500) \<and>
   IsTimeout e = (APIError.StatusCode e = 504) \<and>
   (APIError.StatusCode e = 401 \<longrightarrow> IsUnauthorized e \<and> \<not> IsBadRequest e) \<and>
   (APIError.StatusCode e = 504 \<longrightarrow> IsTimeout e \<and> IsServerError e)"
  unfolding IsUnauthorized_def IsBadRequest_def IsRateLimited_def IsServerError_def
    IsTimeout_def StatusUnauthorized_def StatusBadRequest_def StatusTooManyRequests_def
    StatusInternalServerError_def StatusGatewayTimeout_def
  by simp

theorem APIError_predicates_witness:
  "IsTimeout \<lparr>APIError.StatusCode = 504, APIError.Message = ''Gateway Timeout'', APIError.Detail = JNull\<rparr> \<and>
   IsServerError \<lparr>APIError.StatusCode = 504, APIError.Message = ''Gateway Timeout'', APIError.Detail = JNull\<rparr> \<and>
   IsUnauthorized \<lparr>APIError.StatusCode = 401, APIError.Message = ''Unauthorized'', APIError.Detail = JNull\<rparr> \<and>
   \<not> IsBadRequest \<lparr>APIError.StatusCode = 401, APIError.Message = ''Unauthorized'', APIError.Detail = JNull\<rparr>"
  using
    APIError_predicates [of "\<lparr>APIError.StatusCode = 504, APIError.Message = ''Gateway Timeout'', APIError.Detail = JNull\<rparr>"]
    APIError_predicates [of "\<lparr>APIError.StatusCode = 401, APIError.Message = ''Unauthorized'', APIError.Detail = JNull\<rparr>"]
  by simp

subsection \<open>The text of a validation error\<close>

text \<open>
  C10. The \<open>Error()\<close> string of a \<open>ValidationErrors\<close> is \<open>validation error\<close> when the
  detail list is empty, and otherwise \<open>validation error: \<close> followed by the message of
  the first entry, whatever the other entries are.
\<close>

theorem ValidationErrors_Error_first_message:
  "ValidationErrors_Error \<lparr>ValidationErrors.Detail = []\<rparr> = ''validation error'' \<and>
   ValidationErrors_Error \<lparr>ValidationErrors.Detail = d # ds\<rparr>
     = ''validation error: '' @ ValidationError.Message d"
  by (simp add: ValidationErrors_Error_def)

subsection \<open>Client construction: which write of the base URL stays\<close>

lemma Region_BaseURL_nonempty: "Region_BaseURL r \<noteq> []"
  by (simp add: Region_BaseURL_def baseURLUS_def baseURLEU_def)

lemma apply_options_append:
  "apply_options (xs @ ys) c =
     (case apply_options xs c of Panic \<Rightarrow> Panic | Return c' \<Rightarrow> apply_options ys c')"
  by (induction xs arbitrary: c) (auto split: outcome.splits)

lemma apply_option_keeps_baseURL:
  "\<not> writes_baseURL opt \<Longrightarrow> apply_option opt c = Return c' \<Longrightarrow>
     baseURL c' = baseURL c \<and> region c' = region c"
  by (cases opt) (auto split: option.splits)

lemma apply_options_keep_baseURL:
  "list_all (\<lambda>opt. \<not> writes_baseURL opt) ys \<Longrightarrow> apply_options ys c = Return c' \<Longrightarrow>
     baseURL c' = baseURL c \<and> region c' = region c"
proof (induction ys arbitrary: c)
  case Nil
  then show ?case by simp
next
  case (Cons opt ys)
  from Cons.prems obtain c1 where s: "apply_option opt c = Return c1"
    and r: "apply_options ys c1 = Return c'"
    by (auto split: outcome.splits)
  from Cons.prems have "\<not> writes_baseURL opt" and "list_all (\<lambda>opt. \<not> writes_baseURL opt) ys"
    by simp_all
  with s r Cons.IH [of c1] apply_option_keeps_baseURL [of opt c c1] show ?case
    by simp
qed

lemma NewClient_split:
  assumes "NewClient key (xs @ opt # ys) = Return c"
  obtains c1 c2 c3 where
    "apply_options xs \<lparr>apiKey = key, baseURL = [],
       httpClient = Some \<lparr>Timeout = DefaultTimeout\<rparr>, region = RegionUS\<rparr> = Return c1"
    "apply_option opt c1 = Return c2" "apply_options ys c2 = Return c3"
    "c = (if baseURL c3 = [] then c3\<lparr>baseURL := Region_BaseURL (region c3)\<rparr> else c3)"
  using assms unfolding NewClient_def apply_options_append
  by (auto split: outcome.splits)

text \<open>
  C6, as the code has it. When \<open>NewClient\<close> returns a client and the last option that
  writes the base URL is a region option, the client's base URL is that region's URL; when
  it is an override with a non-empty URL, the client's base URL is that URL. (An override
  with the empty string applied last is not kept: see the counterexample below and C9.)
\<close>

theorem NewClient_last_write_wins:
  assumes "NewClient key (xs @ opt # ys) = Return c"
    and "list_all (\<lambda>opt. \<not> writes_baseURL opt) ys"
  shows "(opt = WithRegion r \<longrightarrow> baseURL c = Region_BaseURL r) \<and>
         (opt = WithBaseURL u \<and> u \<noteq> [] \<longrightarrow> baseURL c = u)"
proof -
  from assms(1) obtain c1 c2 c3 where
    step: "apply_option opt c1 = Return c2" and rest: "apply_options ys c2 = Return c3" and
    fin: "c = (if baseURL c3 = [] then c3\<lparr>baseURL := Region_BaseURL (region c3)\<rparr> else c3)"
    by (rule NewClient_split)
  from rest assms(2) have keep: "baseURL c3 = baseURL c2"
    using apply_options_keep_baseURL by blast
  show ?thesis
  proof (intro conjI impI)
    assume "opt = WithRegion r"
    with step have "baseURL c2 = Region_BaseURL r" by auto
    with keep fin show "baseURL c = Region_BaseURL r"
      by (simp add: Region_BaseURL_nonempty)
  next
    assume "opt = WithBaseURL u \<and> u \<noteq> []"
    with step have "baseURL c2 = u" and "u \<noteq> []" by auto
    with keep fin show "baseURL c = u" by simp
  qed
qed

theorem NewClient_last_write_wins_witness:
  "NewClient ''key'' [WithBaseURL ''https://custom.example.com'', WithRegion RegionEU]
     = Return \<lparr>apiKey = ''key'', baseURL = ''https://api.va.eu-west-1.landing.ai'',
               httpClient = Some \<lparr>Timeout = 300000000000\<rparr>, region = ''eu''\<rparr> \<and>
   baseURL \<lparr>apiKey = ''key'', baseURL = ''https://api.va.eu-west-1.landing.ai'',
            httpClient = Some \<lparr>Timeout = 300000000000\<rparr>, region = ''eu''\<rparr>
     = Region_BaseURL RegionEU \<and>
   NewClient ''key'' [WithRegion RegionEU, WithTimeout 5, WithBaseURL ''https://custom.example.com'']
     = Return \<lparr>apiKey = ''key'', baseURL = ''https://custom.example.com'',
               httpClient = Some \<lparr>Timeout = 5\<rparr>, region = ''eu''\<rparr>"
proof -
  have a: "NewClient ''key'' ([WithBaseURL ''https://custom.example.com''] @ WithRegion RegionEU # [])
     = Return \<lparr>apiKey = ''key'', baseURL = ''https://api.va.eu-west-1.landing.ai'',
               httpClient = Some \<lparr>Timeout = 300000000000\<rparr>, region = ''eu''\<rparr>"
    by (simp add: NewClient_def Region_BaseURL_def RegionEU_def RegionUS_def baseURLEU_def
        DefaultTimeout_def)
  have b: "NewClient ''key''
       ([WithRegion RegionEU, WithTimeout 5] @ WithBaseURL ''https://custom.example.com'' # [])
     = Return \<lparr>apiKey = ''key'', baseURL = ''https://custom.example.com'',
               httpClient = Some \<lparr>Timeout = 5\<rparr>, region = ''eu''\<rparr>"
    by (simp add: NewClient_def Region_BaseURL_def RegionEU_def RegionUS_def baseURLEU_def
        DefaultTimeout_def)
  from NewClient_last_write_wins [OF a, of RegionEU]
    NewClient_last_write_wins [OF b, of _ "''https://custom.example.com''"] a b
  show ?thesis by simp
qed

text \<open>
  The claim C6 as stated fails when the option applied last is an override with the empty
  string: the field then holds the empty string, and the constructed client has the URL of
  the region instead.
\<close>

theorem NewClient_empty_override_counterexample:
  "NewClient ''key'' [WithRegion RegionEU, WithBaseURL []]
     = Return \<lparr>apiKey = ''key'', baseURL = ''https://api.va.eu-west-1.landing.ai'',
               httpClient = Some \<lparr>Timeout = 300000000000\<rparr>, region = ''eu''\<rparr> \<and>
   ''https://api.va.eu-west-1.landing.ai'' \<noteq> ([] :: string)"
  by (simp add: NewClient_def Region_BaseURL_def RegionEU_def RegionUS_def baseURLEU_def
      DefaultTimeout_def)

text \<open>Leaving the overrides out changes nothing but the field they write.\<close>

lemma apply_option_without_override:
  assumes "c'\<lparr>baseURL := []\<rparr> = c\<lparr>baseURL := []\<rparr>" and "\<not> is_override opt"
  shows "(apply_option opt c = Panic \<longrightarrow> apply_option opt c' = Panic) \<and>
         (\<forall>d. apply_option opt c = Return d \<longrightarrow>
            (\<exists>d'. apply_option opt c' = Return d' \<and> d'\<lparr>baseURL := []\<rparr> = d\<lparr>baseURL := []\<rparr> \<and>
               (writes_baseURL opt \<longrightarrow> baseURL d' = Region_BaseURL (region d')) \<and>
               (\<not> writes_baseURL opt \<longrightarrow> baseURL d' = baseURL c' \<and> region d' = region c')))"
proof -
  from assms(1) have eq: "apiKey c' = apiKey c" "httpClient c' = httpClient c" "region c' = region c"
    by (metis Client.select_convs Client.surjective Client.update_convs(2))+
  show ?thesis
    using assms eq
    by (cases opt) (auto split: option.splits simp: Client.equality)
qed

lemma apply_options_without_overrides:
  assumes "c'\<lparr>baseURL := []\<rparr> = c\<lparr>baseURL := []\<rparr>"
    and "baseURL c' = [] \<or> baseURL c' = Region_BaseURL (region c')"
  shows "(apply_options opts c = Panic \<longrightarrow>
            apply_options (filter (\<lambda>opt. \<not> is_override opt) opts) c' = Panic) \<and>
         (\<forall>d. apply_options opts c = Return d \<longrightarrow>
            (\<exists>d'. apply_options (filter (\<lambda>opt. \<not> is_override opt) opts) c' = Return d' \<and>
               d'\<lparr>baseURL := []\<rparr> = d\<lparr>baseURL := []\<rparr> \<and>
               (baseURL d' = [] \<or> baseURL d' = Region_BaseURL (region d'))))"
  using assms
proof (induction opts arbitrary: c c')
  case Nil
  then show ?case by simp
next
  case (Cons opt opts)
  show ?case
  proof (cases "is_override opt")
    case True
    then obtain u where opt: "opt = WithBaseURL u" by (cases opt) auto
    have "c'\<lparr>baseURL := []\<rparr> = (c\<lparr>baseURL := u\<rparr>)\<lparr>baseURL := []\<rparr>"
      using Cons.prems(1) by simp
    from Cons.IH [OF this Cons.prems(2)] show ?thesis
      by (simp add: opt)
  next
    case False
    note step = apply_option_without_override [OF Cons.prems(1) False]
    show ?thesis
    proof (cases "apply_option opt c")
      case Panic
      with step False show ?thesis by simp
    next
      case (Return d)
      with step obtain d' where d': "apply_option opt c' = Return d'"
        and eq: "d'\<lparr>baseURL := []\<rparr> = d\<lparr>baseURL := []\<rparr>"
        and w: "writes_baseURL opt \<longrightarrow> baseURL d' = Region_BaseURL (region d')"
        and nw: "\<not> writes_baseURL opt \<longrightarrow> baseURL d' = baseURL c' \<and> region d' = region c'"
        by blast
      from w nw Cons.prems(2) have inv: "baseURL d' = [] \<or> baseURL d' = Region_BaseURL (region d')"
        by auto
      from Cons.IH [OF eq inv] Return d' False show ?thesis by simp
    qed
  qed
qed

lemma last_writer_split:
  assumes "filter writes_baseURL opts \<noteq> []"
  obtains xs ys where "opts = xs @ last (filter writes_baseURL opts) # ys"
    and "list_all (\<lambda>opt. \<not> writes_baseURL opt) ys"
proof -
  from assms have "\<exists>x \<in> set opts. writes_baseURL x"
    by (metis filter_False)
  from split_list_last_prop [OF this]
  obtain xs x ys where s: "opts = xs @ x # ys" and x: "writes_baseURL x"
    and ys: "\<forall>z \<in> set ys. \<not> writes_baseURL z"
    by blast
  from ys have f: "filter writes_baseURL ys = []" by (simp add: filter_empty_conv)
  with s x have "last (filter writes_baseURL opts) = x" by simp
  with s ys that show thesis by (simp add: list_all_iff)
qed

text \<open>
  C9. When no option writes the base URL, or the last one that does is an override with
  the empty string, the field is empty after the options have run, and the constructed
  client's base URL is the URL of its region field. The client is then the one that the
  same options without any override construct: the empty override cannot be told from
  no override.
\<close>

theorem NewClient_empty_baseURL_from_region:
  assumes "NewClient key opts = Return c"
    and "filter writes_baseURL opts = [] \<or> last (filter writes_baseURL opts) = WithBaseURL []"
  shows "baseURL c = Region_BaseURL (region c) \<and>
         NewClient key (filter (\<lambda>opt. \<not> is_override opt) opts) = Return c"
proof -
  let ?init = "\<lparr>apiKey = key, baseURL = [], httpClient = Some \<lparr>Timeout = DefaultTimeout\<rparr>,
                region = RegionUS\<rparr>"
  from assms(1) obtain d where d: "apply_options opts ?init = Return d"
    and c: "c = (if baseURL d = [] then d\<lparr>baseURL := Region_BaseURL (region d)\<rparr> else d)"
    by (auto simp: NewClient_def split: outcome.splits)
  have empty: "baseURL d = []"
  proof (cases "filter writes_baseURL opts = []")
    case True
    then have "list_all (\<lambda>opt. \<not> writes_baseURL opt) opts"
      by (simp add: filter_empty_conv list_all_iff)
    from apply_options_keep_baseURL [OF this d] show ?thesis by simp
  next
    case False
    with assms(2) have l: "last (filter writes_baseURL opts) = WithBaseURL []" by simp
    from False obtain xs ys where s: "opts = xs @ last (filter writes_baseURL opts) # ys"
      and ys: "list_all (\<lambda>opt. \<not> writes_baseURL opt) ys"
      by (rule last_writer_split)
    from d s l have "apply_options (xs @ WithBaseURL [] # ys) ?init = Return d"
      by simp
    then obtain c1 where "apply_options ys (c1\<lparr>baseURL := []\<rparr>) = Return d"
      by (auto simp: apply_options_append split: outcome.splits)
    from apply_options_keep_baseURL [OF ys this] show ?thesis by simp
  qed
  with c have c': "c = d\<lparr>baseURL := Region_BaseURL (region d)\<rparr>" by simp
  have "?init\<lparr>baseURL := []\<rparr> = ?init\<lparr>baseURL := []\<rparr>"
    and "baseURL ?init = [] \<or> baseURL ?init = Region_BaseURL (region ?init)"
    by simp_all
  from apply_options_without_overrides [OF this, of opts] d
  obtain d' where d': "apply_options (filter (\<lambda>opt. \<not> is_override opt) opts) ?init = Return d'"
    and eq: "d'\<lparr>baseURL := []\<rparr> = d\<lparr>baseURL := []\<rparr>"
    and inv: "baseURL d' = [] \<or> baseURL d' = Region_BaseURL (region d')"
    by blast
  from eq have same: "apiKey d' = apiKey d" "httpClient d' = httpClient d" "region d' = region d"
    by (metis Client.select_convs Client.surjective Client.update_convs(2))+
  have "(if baseURL d' = [] then d'\<lparr>baseURL := Region_BaseURL (region d')\<rparr> else d') = c"
    using inv same c' by (auto simp: Client.equality)
  with d' have "NewClient key (filter (\<lambda>opt. \<not> is_override opt) opts) = Return c"
    by (simp add: NewClient_def)
  with c' show ?thesis by simp
qed

theorem NewClient_empty_baseURL_from_region_witness:
  "NewClient ''key'' [WithBaseURL ''https://custom.example.com'', WithRegion RegionEU, WithBaseURL []]
     = Return \<lparr>apiKey = ''key'', baseURL = ''https://api.va.eu-west-1.landing.ai'',
               httpClient = Some \<lparr>Timeout = 300000000000\<rparr>, region = ''eu''\<rparr> \<and>
   NewClient ''key'' [WithRegion RegionEU]
     = Return \<lparr>apiKey = ''key'', baseURL = ''https://api.va.eu-west-1.landing.ai'',
               httpClient = Some \<lparr>Timeout = 300000000000\<rparr>, region = ''eu''\<rparr> \<and>
   Region_BaseURL ''eu'' = ''https://api.va.eu-west-1.landing.ai''"
proof -
  have a: "NewClient ''key''
      [WithBaseURL ''https://custom.example.com'', WithRegion RegionEU, WithBaseURL []]
     = Return \<lparr>apiKey = ''key'', baseURL = ''https://api.va.eu-west-1.landing.ai'',
               httpClient = Some \<lparr>Timeout = 300000000000\<rparr>, region = ''eu''\<rparr>"
    by (simp add: NewClient_def Region_BaseURL_def RegionEU_def RegionUS_def baseURLEU_def
        DefaultTimeout_def)
  have b: "filter writes_baseURL
        [WithBaseURL ''https://custom.example.com'', WithRegion RegionEU, WithBaseURL []] = []
     \<or> last (filter writes_baseURL
        [WithBaseURL ''https://custom.example.com'', WithRegion RegionEU, WithBaseURL []])
        = WithBaseURL []"
    by simp
  from NewClient_empty_baseURL_from_region [OF a b] a show ?thesis
    by simp
qed

subsection \<open>Submit: validation of the document source\<close>

text \<open>
  C1. For every builder state, \<open>Do\<close> fails with the error \<open>cannot provide both document
  URL and file\<close> when a document URL and a file path or in-memory bytes are set, and with
  the error \<open>must provide either document URL or file\<close> when none of the three is set. In
  both cases no file has been read and no HTTP request has been issued: the list of effects
  is empty. (The source has no error type of its own for this; the error is the plain
  value that \<open>fmt.Errorf\<close> makes from the message.)
\<close>

theorem Do_validates_first:
  "(documentURL b \<noteq> None \<and> (filePath b \<noteq> [] \<or> fileData b \<noteq> None) \<longrightarrow>
      Do env b = ([], Return (Inl (ErrorString ''cannot provide both document URL and file'')))) \<and>
   (documentURL b = None \<and> filePath b = [] \<and> fileData b = None \<longrightarrow>
      Do env b = ([], Return (Inl (ErrorString ''must provide either document URL or file''))))"
  by (simp add: Do_def)

theorem Do_validates_first_witness:
  "Do sample_world (WithFile ''docs/report.pdf'' (WithURL ''https://example.com/a.pdf'' (Parse sample_client (ContextHandle 0))))
     = ([], Return (Inl (ErrorString ''cannot provide both document URL and file''))) \<and>
   Do sample_world (WithFileData (Some []) ''a.pdf'' (WithURL ''https://example.com/a.pdf'' (Parse sample_client (ContextHandle 0))))
     = ([], Return (Inl (ErrorString ''cannot provide both document URL and file''))) \<and>
   Do sample_world (WithModel ''dpt-2-latest'' (Parse sample_client (ContextHandle 0)))
     = ([], Return (Inl (ErrorString ''must provide either document URL or file'')))"
  using
    Do_validates_first [of "WithFile ''docs/report.pdf'' (WithURL ''https://example.com/a.pdf'' (Parse sample_client (ContextHandle 0)))" sample_world]
    Do_validates_first [of "WithFileData (Some []) ''a.pdf'' (WithURL ''https://example.com/a.pdf'' (Parse sample_client (ContextHandle 0)))" sample_world]
    Do_validates_first [of "WithModel ''dpt-2-latest'' (Parse sample_client (ContextHandle 0))" sample_world]
  by (simp add: Parse_def WithFile_def WithURL_def WithFileData_def WithModel_def)

subsection \<open>The error classifier\<close>

lemma handleErrorResponse_cases:
  "(\<exists>v. handleErrorResponse p fits s body = ValidationErrs v \<and> s = 422) \<or>
   (\<exists>d. handleErrorResponse p fits s body =
      APIErr \<lparr>APIError.StatusCode = s, APIError.Message = getErrorMessage s, APIError.Detail = d\<rparr>)"
  by (auto simp: handleErrorResponse_def StatusUnprocessableEntity_def split: option.splits)

lemma handleErrorResponse_classified: "classified (handleErrorResponse p fits s body)"
  using handleErrorResponse_cases [of p fits s body] by auto

lemma handleErrorResponse_asAPIError:
  "asAPIError (handleErrorResponse p fits s body) = Some e \<Longrightarrow> APIError.StatusCode e = s"
  using handleErrorResponse_cases [of p fits s body] by auto

lemma NewRequestWithContext_error:
  "NewRequestWithContext env c m url body = Inl e \<Longrightarrow> asAPIError (Library e) = None"
  by simp

lemma buildFileRequest_error:
  "buildFileRequest env b url = (t, Return (Inl err)) \<Longrightarrow> asAPIError err = None"
  by (auto simp: buildFileRequest_def Let_def split: option.splits sum.splits prod.splits)

lemma buildURLRequest_error:
  "buildURLRequest env b url = Return (Inl err) \<Longrightarrow> asAPIError err = None"
  by (auto simp: buildURLRequest_def Let_def split: option.splits sum.splits)

lemma buildRequest_error:
  "buildRequest env b = (t, Return (Inl err)) \<Longrightarrow> asAPIError err = None"
  by (auto simp: buildRequest_def Let_def buildFileRequest_error buildURLRequest_error
      split: option.splits sum.splits prod.splits outcome.splits if_splits)

text \<open>
  C3, as the code has it. Whenever the classifier does not return a \<open>ValidationErrors\<close>,
  for any status code and so for every code outside 200..299, it returns an \<open>APIError\<close>
  with that status code, whose message is the fixed text for 400, 401, 402, 422, 429, 500
  and 504 and \<open>API request failed with status\<close> followed by the code in decimal for any
  other. Its detail is the value of the top-level member \<open>detail\<close> when the body is a JSON
  object with that key and every number in the body converts to \<open>float64\<close>; it is the
  raw body text when the body is not valid JSON, and also when the body is an object with
  a number that does not convert.
\<close>

theorem handleErrorResponse_APIError:
  assumes "\<forall>v. handleErrorResponse p fits s body \<noteq> ValidationErrs v"
  shows "\<exists>e. handleErrorResponse p fits s body = APIErr e \<and>
           APIError.StatusCode e = s \<and>
           APIError.Message e =
             (if s = 400 then ''Bad request: Invalid request parameters''
              else if s = 401 then ''Unauthorized: Invalid or missing API key''
              else if s = 402 then ''Payment required: Insufficient credits''
              else if s = 422 then ''Unprocessable entity: Input validation failed''
              else if s = 429 then ''Too many requests: Rate limit exceeded''
              else if s = 500 then ''Internal server error: Failed to process document''
              else if s = 504 then ''Gateway timeout: Request processing exceeded time limit''
              else ''API request failed with status '' @ Sprintf_d s) \<and>
           (\<forall>ms d. p body = Inr (JObject ms) \<and> list_all (numbers_fit fits) (map snd ms) \<and>
                member ms ''detail'' = Some d \<longrightarrow>
              APIError.Detail e = d) \<and>
           (\<forall>ms. p body = Inr (JObject ms) \<and> \<not> list_all (numbers_fit fits) (map snd ms) \<longrightarrow>
              APIError.Detail e = JString body) \<and>
           (\<forall>err. p body = Inl err \<longrightarrow> APIError.Detail e = JString body)"
proof -
  from assms have "handleErrorResponse p fits s body =
      APIErr \<lparr>APIError.StatusCode = s, APIError.Message = getErrorMessage s,
              APIError.Detail =
                (case Unmarshal_map p fits body of
                   Some errorDetail \<Rightarrow>
                     (case errorDetail ''detail'' of Some detail \<Rightarrow> detail | None \<Rightarrow> JNull)
                 | None \<Rightarrow> JString body)\<rparr>"
    by (auto simp: handleErrorResponse_def split: option.splits if_splits)
  moreover have "getErrorMessage s =
             (if s = 400 then ''Bad request: Invalid request parameters''
              else if s = 401 then ''Unauthorized: Invalid or missing API key''
              else if s = 402 then ''Payment required: Insufficient credits''
              else if s = 422 then ''Unprocessable entity: Input validation failed''
              else if s = 429 then ''Too many requests: Rate limit exceeded''
              else if s = 500 then ''Internal server error: Failed to process document''
              else if s = 504 then ''Gateway timeout: Request processing exceeded time limit''
              else ''API request failed with status '' @ Sprintf_d s)"
    unfolding getErrorMessage_def StatusBadRequest_def StatusUnauthorized_def
      StatusPaymentRequired_def StatusUnprocessableEntity_def StatusTooManyRequests_def
      StatusInternalServerError_def StatusGatewayTimeout_def
    by simp
  ultimately show ?thesis
    by (auto simp: Unmarshal_map_def member_def)
qed

theorem handleErrorResponse_APIError_witness:
  \<open>handleErrorResponse sample_parseJSON sample_fitsFloat64 404 ''{"detail":"something else"}''
     = APIErr \<lparr>APIError.StatusCode = 404,
               APIError.Message = ''API request failed with status 404'',
               APIError.Detail = JString ''something else''\<rparr> \<and>
   handleErrorResponse sample_parseJSON sample_fitsFloat64 401 ''<html>''
     = APIErr \<lparr>APIError.StatusCode = 401,
               APIError.Message = ''Unauthorized: Invalid or missing API key'',
               APIError.Detail = JString ''<html>''\<rparr> \<and>
   handleErrorResponse sample_parseJSON sample_fitsFloat64 500 ''{"detail":"x","n":1e999}''
     = APIErr \<lparr>APIError.StatusCode = 500,
               APIError.Message = ''Internal server error: Failed to process document'',
               APIError.Detail = JString ''{"detail":"x","n":1e999}''\<rparr>\<close>
proof -
  have a: \<open>\<forall>v. handleErrorResponse sample_parseJSON sample_fitsFloat64 404
      ''{"detail":"something else"}'' \<noteq> ValidationErrs v\<close>
    by (simp add: handleErrorResponse_def StatusUnprocessableEntity_def)
  have b: \<open>\<forall>v. handleErrorResponse sample_parseJSON sample_fitsFloat64 401 ''<html>''
      \<noteq> ValidationErrs v\<close>
    by (simp add: handleErrorResponse_def StatusUnprocessableEntity_def)
  have c: \<open>\<forall>v. handleErrorResponse sample_parseJSON sample_fitsFloat64 500
      ''{"detail":"x","n":1e999}'' \<noteq> ValidationErrs v\<close>
    by (simp add: handleErrorResponse_def StatusUnprocessableEntity_def)
  have pa: \<open>sample_parseJSON ''{"detail":"something else"}''
      = Inr (JObject [(''detail'', JString ''something else'')])\<close>
    by (simp add: sample_parseJSON_def)
  have fa: "list_all (numbers_fit sample_fitsFloat64)
      (map snd [(''detail'', JString ''something else'')])"
    by simp
  have ma: "member [(''detail'', JString ''something else'')] ''detail''
      = Some (JString ''something else'')"
    by (simp add: member_def)
  have pb: \<open>sample_parseJSON ''<html>'' = Inl (LibraryError ''invalid character'')\<close>
    by (simp add: sample_parseJSON_def)
  have pc: \<open>sample_parseJSON ''{"detail":"x","n":1e999}''
      = Inr (JObject [(''detail'', JString ''x''), (''n'', JNumber ''1e999'')])\<close>
    by (simp add: sample_parseJSON_def)
  have fc: "\<not> list_all (numbers_fit sample_fitsFloat64)
      (map snd [(''detail'', JString ''x''), (''n'', JNumber ''1e999'')])"
    by (simp add: sample_fitsFloat64_def)
  have d: "Sprintf_d 404 = ''404''"
    by (simp add: Sprintf_d_def decimal.simps)
  from handleErrorResponse_APIError [OF a] pa fa ma d
  have 1: \<open>handleErrorResponse sample_parseJSON sample_fitsFloat64 404 ''{"detail":"something else"}''
     = APIErr \<lparr>APIError.StatusCode = 404,
               APIError.Message = ''API request failed with status 404'',
               APIError.Detail = JString ''something else''\<rparr>\<close>
    by (auto simp: APIError.equality)
  from handleErrorResponse_APIError [OF b] pb
  have 2: \<open>handleErrorResponse sample_parseJSON sample_fitsFloat64 401 ''<html>''
     = APIErr \<lparr>APIError.StatusCode = 401,
               APIError.Message = ''Unauthorized: Invalid or missing API key'',
               APIError.Detail = JString ''<html>''\<rparr>\<close>
    by (auto simp: APIError.equality)
  from handleErrorResponse_APIError [OF c] pc fc
  have 3: \<open>handleErrorResponse sample_parseJSON sample_fitsFloat64 500 ''{"detail":"x","n":1e999}''
     = APIErr \<lparr>APIError.StatusCode = 500,
               APIError.Message = ''Internal server error: Failed to process document'',
               APIError.Detail = JString ''{"detail":"x","n":1e999}''\<rparr>\<close>
    by (auto simp: APIError.equality)
  from 1 2 3 show ?thesis by blast
qed

text \<open>
  The claim C3 as stated fails for a body that is a JSON object with the key \<open>detail\<close>
  and a number that does not convert to \<open>float64\<close>: \<open>json.Unmarshal\<close> into the map
  returns an error, and the detail is the raw body text, not the value of the member.
\<close>

theorem handleErrorResponse_APIError_counterexample:
  \<open>sample_parseJSON ''{"detail":"x","n":1e999}''
     = Inr (JObject [(''detail'', JString ''x''), (''n'', JNumber ''1e999'')]) \<and>
   member [(''detail'', JString ''x''), (''n'', JNumber ''1e999'')] ''detail''
     = Some (JString ''x'') \<and>
   \<not> sample_fitsFloat64 ''1e999'' \<and>
   handleErrorResponse sample_parseJSON sample_fitsFloat64 400 ''{"detail":"x","n":1e999}''
     = APIErr \<lparr>APIError.StatusCode = 400,
               APIError.Message = ''Bad request: Invalid request parameters'',
               APIError.Detail = JString ''{"detail":"x","n":1e999}''\<rparr> \<and>
   JString ''{"detail":"x","n":1e999}'' \<noteq> JString ''x''\<close>
  by (simp add: sample_parseJSON_def sample_fitsFloat64_def member_def handleErrorResponse_def
      Unmarshal_map_def getErrorMessage_def StatusUnprocessableEntity_def StatusBadRequest_def)

subsection \<open>The classifier at status 422\<close>












lemma fieldByName_exact [simp]:
  "fieldByName [''loc'', ''msg'', ''type''] ''loc'' = Some ''loc''"
  "fieldByName [''loc'', ''msg'', ''type''] ''msg'' = Some ''msg''"
  "fieldByName [''loc'', ''msg'', ''type''] ''type'' = Some ''type''"
  "fieldByName [''detail''] ''detail'' = Some ''detail''"
  by (simp_all add: fieldByName_def)







subsection \<open>Submit: interpretation of the response\<close>

lemma Do_cases:
  "(\<exists>t msg. Do env b = (t, Return (Inl (ErrorString msg)))) \<or>
   (\<exists>t. Do env b = (t, Panic)) \<or>
   (\<exists>t err. Do env b = (t, Return (Inl (WrapError ''failed to build request: '' err))) \<and>
        asAPIError err = None) \<or>
   (\<exists>t e. Do env b = (t, Return (Inl (WrapError ''failed to execute request: '' (Library e))))) \<or>
   (\<exists>t e. Do env b = (t, Return (Inl (WrapError ''failed to read response body: '' (Library e))))) \<or>
   (\<exists>t s body. Do env b = (t, interpretResponse env s body))"
proof -
  obtain t r where br: "buildRequest env b = (t, r)" by (cases "buildRequest env b")
  show ?thesis
  proof (cases r)
    case Panic
    with br show ?thesis by (auto simp: Do_def)
  next
    case (Return x)
    show ?thesis
    proof (cases x)
      case (Inl err)
      with br Return buildRequest_error [of env b t err] show ?thesis
        by (auto simp: Do_def)
    next
      case (Inr req)
      note built = br [unfolded Return Inr]
      show ?thesis
      proof (cases "case client b of None \<Rightarrow> None | Some c \<Rightarrow> httpClient c")
        case None
        with built have "Do env b = (t, Panic) \<or> (\<exists>msg. Do env b = ([], Return (Inl (ErrorString msg))))"
          by (simp add: Do_def)
        then show ?thesis by blast
      next
        case (Some h)
        show ?thesis
        proof (cases "httpDo env h req")
          case (Inl e)
          with built Some have
            "Do env b = (t @ [HTTPCall req], Return (Inl (WrapError ''failed to execute request: '' (Library e))))
              \<or> (\<exists>msg. Do env b = ([], Return (Inl (ErrorString msg))))"
            by (simp add: Do_def)
          then show ?thesis by blast
        next
          case resp: (Inr resp)
          show ?thesis
          proof (cases "Response.Body resp")
            case (Inl e)
            with built Some resp have
              "Do env b = (t @ [HTTPCall req], Return (Inl (WrapError ''failed to read response body: '' (Library e))))
                \<or> (\<exists>msg. Do env b = ([], Return (Inl (ErrorString msg))))"
              by (simp add: Do_def)
            then show ?thesis by blast
          next
            case (Inr body)
            with built Some resp have
              "Do env b = (t @ [HTTPCall req], interpretResponse env (Response.StatusCode resp) body)
                \<or> (\<exists>msg. Do env b = ([], Return (Inl (ErrorString msg))))"
              by (simp add: Do_def interpretResponse_def)
            then show ?thesis by blast
          qed
        qed
      qed
    qed
  qed
qed

lemma interpretResponse_not_partial:
  assumes "interpretResponse env s body = Return (Inl err)" and "asAPIError err = Some e"
  shows "\<not> IsPartialContent e"
proof (cases "s < 200 \<or> s \<ge> 300")
  case True
  with assms(1) have "err = handleErrorResponse (parseJSON env) (fitsFloat64 env) s body"
    by (simp add: interpretResponse_def)
  with assms(2) have "APIError.StatusCode e = s"
    by (simp add: handleErrorResponse_asAPIError)
  with True show ?thesis
    by (auto simp: IsPartialContent_def StatusPartialContent_def)
next
  case False
  with assms show ?thesis
    by (auto simp: interpretResponse_def split: sum.splits)
qed

lemma Do_not_partial:
  assumes "snd (Do env b) = Return (Inl err)" and "asAPIError err = Some e"
  shows "\<not> IsPartialContent e"
  using Do_cases [of env b] assms interpretResponse_not_partial [of env _ _ err e]
  by auto

lemma Do_received:
  assumes "buildRequest env b = (t, Return (Inr req))"
    and "client b = Some c" and "httpClient c = Some h"
    and "httpDo env h req = Inr resp" and "Response.Body resp = Inr body"
    and "\<not> (documentURL b \<noteq> None \<and> (filePath b \<noteq> [] \<or> fileData b \<noteq> None))"
    and "\<not> (documentURL b = None \<and> filePath b = [] \<and> fileData b = None)"
  shows "Do env b = (t @ [HTTPCall req], interpretResponse env (Response.StatusCode resp) body)"
  using assms by (simp add: Do_def interpretResponse_def)

text \<open>
  C4. When \<open>Do\<close> has received a response and read its body, the result is the classifier's
  error exactly when the status code is outside 200..299; for a status from 200 to 299, so
  also for 206, the body is decoded as a parse response and a failure to decode is returned
  as a wrapped decoding error, not as a classified error. Hence no error that \<open>Do\<close>
  returns, on any path, is or wraps an \<open>APIError\<close> for which \<open>IsPartialContent\<close> holds.
\<close>

theorem Do_classifies_outside_2xx:
  "(buildRequest env b = (t, Return (Inr req)) \<and> client b = Some c \<and> httpClient c = Some h \<and>
    httpDo env h req = Inr resp \<and> Response.Body resp = Inr body \<and>
    \<not> (documentURL b \<noteq> None \<and> (filePath b \<noteq> [] \<or> fileData b \<noteq> None)) \<and>
    \<not> (documentURL b = None \<and> filePath b = [] \<and> fileData b = None) \<longrightarrow>
      (Response.StatusCode resp < 200 \<or> 300 \<le> Response.StatusCode resp \<longrightarrow>
         snd (Do env b) =
           Return (Inl (handleErrorResponse (parseJSON env) (fitsFloat64 env) (Response.StatusCode resp) body))) \<and>
      (200 \<le> Response.StatusCode resp \<and> Response.StatusCode resp < 300 \<longrightarrow>
         snd (Do env b) =
           (case parseJSON env body of
              Inl e \<Rightarrow> Return (Inl (WrapError ''failed to parse response: '' (Library e)))
            | Inr j \<Rightarrow>
                (case decodeParseResponse env j of
                   Inl e \<Rightarrow> Return (Inl (WrapError ''failed to parse response: '' (Library e)))
                 | Inr parseResp \<Rightarrow> Return (Inr parseResp)))) \<and>
      ((\<exists>err. snd (Do env b) = Return (Inl err) \<and> classified err)
         = (Response.StatusCode resp < 200 \<or> 300 \<le> Response.StatusCode resp))) \<and>
   (\<forall>err e. snd (Do env b) = Return (Inl err) \<and> asAPIError err = Some e \<longrightarrow>
      \<not> IsPartialContent e)"
proof (intro conjI impI allI)
  fix err e
  assume "snd (Do env b) = Return (Inl err) \<and> asAPIError err = Some e"
  then show "\<not> IsPartialContent e" using Do_not_partial by blast
next
  assume h: "buildRequest env b = (t, Return (Inr req)) \<and> client b = Some c \<and> httpClient c = Some h \<and>
    httpDo env h req = Inr resp \<and> Response.Body resp = Inr body \<and>
    \<not> (documentURL b \<noteq> None \<and> (filePath b \<noteq> [] \<or> fileData b \<noteq> None)) \<and>
    \<not> (documentURL b = None \<and> filePath b = [] \<and> fileData b = None)"
  then have r: "snd (Do env b) = interpretResponse env (Response.StatusCode resp) body"
    using Do_received [of env b t req c h resp body] by simp
  {
    assume "Response.StatusCode resp < 200 \<or> 300 \<le> Response.StatusCode resp"
    with r show "snd (Do env b) =
           Return (Inl (handleErrorResponse (parseJSON env) (fitsFloat64 env) (Response.StatusCode resp) body))"
      by (auto simp: interpretResponse_def)
  }
  {
    assume "200 \<le> Response.StatusCode resp \<and> Response.StatusCode resp < 300"
    with r show "snd (Do env b) =
           (case parseJSON env body of
              Inl e \<Rightarrow> Return (Inl (WrapError ''failed to parse response: '' (Library e)))
            | Inr j \<Rightarrow>
                (case decodeParseResponse env j of
                   Inl e \<Rightarrow> Return (Inl (WrapError ''failed to parse response: '' (Library e)))
                 | Inr parseResp \<Rightarrow> Return (Inr parseResp)))"
      by (auto simp: interpretResponse_def)
  }
  show "(\<exists>err. snd (Do env b) = Return (Inl err) \<and> classified err)
         = (Response.StatusCode resp < 200 \<or> 300 \<le> Response.StatusCode resp)"
  proof (cases "Response.StatusCode resp < 200 \<or> 300 \<le> Response.StatusCode resp")
    case True
    with r show ?thesis
      by (auto simp: interpretResponse_def handleErrorResponse_classified)
  next
    case False
    with r show ?thesis
      by (auto simp: interpretResponse_def split: sum.splits)
  qed
qed

lemma sample_upload_built:
  "buildRequest sample_world sample_upload = ([], Return (Inr sample_upload_request))"
  by (simp add: buildRequest_def buildFileRequest_def NewRequestWithContext_def
      FormDataContentType_def sample_world_def sample_upload_def sample_upload_request_def
      sample_client_def Parse_def WithFileData_def WithFile_def)

theorem Do_classifies_outside_2xx_witness:
  "snd (Do sample_world sample_upload) =
     Return (Inl (WrapError ''failed to parse response: '' (Library (LibraryError ''invalid character''))))"
proof -
  have "buildRequest sample_world sample_upload = ([], Return (Inr sample_upload_request)) \<and>
    client sample_upload = Some sample_client \<and>
    httpClient sample_client = Some \<lparr>Timeout = DefaultTimeout\<rparr> \<and>
    httpDo sample_world \<lparr>Timeout = DefaultTimeout\<rparr> sample_upload_request
      = Inr \<lparr>Response.StatusCode = 206, Response.Body = Inr ''<html>''\<rparr> \<and>
    Response.Body \<lparr>Response.StatusCode = 206, Response.Body = Inr ''<html>''\<rparr> = Inr ''<html>'' \<and>
    \<not> (documentURL sample_upload \<noteq> None \<and> (filePath sample_upload \<noteq> [] \<or> fileData sample_upload \<noteq> None)) \<and>
    \<not> (documentURL sample_upload = None \<and> filePath sample_upload = [] \<and> fileData sample_upload = None)"
    by (simp add: sample_upload_built)
      (simp add: sample_world_def sample_upload_def sample_upload_request_def
        sample_client_def Parse_def WithFileData_def WithFile_def)
  with Do_classifies_outside_2xx [of sample_world sample_upload "[]" sample_upload_request
      sample_client "\<lparr>Timeout = DefaultTimeout\<rparr>"
      "\<lparr>Response.StatusCode = 206, Response.Body = Inr ''<html>''\<rparr>" "''<html>''"]
  show ?thesis
    by (simp add: sample_world_def sample_parseJSON_def)
qed

subsection \<open>Submit: the file part\<close>

lemma Base_strips_directory:
  assumes "name \<noteq> []" and "CHR ''/'' \<notin> set name"
  shows "Base (dir @ ''/'' @ name) = name" and "Base name = name"
proof -
  from assms(1) obtain c cs where r: "rev name = c # cs"
    by (cases "rev name") auto
  then have "c \<in> set name"
    by (metis list.set_intros(1) set_rev)
  with assms(2) have c: "\<not> IsPathSeparator c"
    by (auto simp: IsPathSeparator_def)
  from assms(2) have all: "\<forall>x \<in> set (rev name). \<not> IsPathSeparator x"
    by (auto simp: IsPathSeparator_def)
  have rv: "rev (dir @ ''/'' @ name) = rev name @ CHR ''/'' # rev dir"
    by simp
  have d1: "dropWhile IsPathSeparator (rev name @ CHR ''/'' # rev dir) = rev name @ CHR ''/'' # rev dir"
    using c by (simp add: r)
  have "takeWhile (\<lambda>c. \<not> IsPathSeparator c) (rev name @ CHR ''/'' # rev dir)
      = rev name @ takeWhile (\<lambda>c. \<not> IsPathSeparator c) (CHR ''/'' # rev dir)"
    by (rule takeWhile_append2) (use all in blast)
  then have t1: "takeWhile (\<lambda>c. \<not> IsPathSeparator c) (rev name @ CHR ''/'' # rev dir) = rev name"
    by (simp add: IsPathSeparator_def)
  have "Base (dir @ ''/'' @ name) =
      (let stripped = rev (dropWhile IsPathSeparator (rev (dir @ ''/'' @ name)));
           element = rev (takeWhile (\<lambda>c. \<not> IsPathSeparator c) (rev stripped))
       in if element = [] then ''/'' else element)"
    by (simp add: Base_def)
  also have "\<dots> = name"
    unfolding rv d1 Let_def rev_rev_ident t1 using assms(1) by simp
  finally show "Base (dir @ ''/'' @ name) = name" .
  have d2: "dropWhile IsPathSeparator (rev name) = rev name"
    using c by (simp add: r)
  have t2: "takeWhile (\<lambda>c. \<not> IsPathSeparator c) (rev name) = rev name"
    using all by (simp add: takeWhile_eq_all_conv)
  have "Base name =
      (let stripped = rev (dropWhile IsPathSeparator (rev name));
           element = rev (takeWhile (\<lambda>c. \<not> IsPathSeparator c) (rev stripped))
       in if element = [] then ''/'' else element)"
    using assms(1) by (simp add: Base_def)
  also have "\<dots> = name"
    unfolding d2 Let_def rev_rev_ident t2 using assms(1) by simp
  finally show "Base name = name" .
qed

lemma buildRequest_file:
  assumes "documentURL b = None" and "client b = Some c" and "ctx b \<noteq> NilContext"
    and "parseURL env (baseURL c @ ''/v1/ade/parse'') = None"
  shows "fileData b = Some d \<Longrightarrow>
           \<exists>req. buildRequest env b = ([], Return (Inr req)) \<and>
             Request.Body req = FormFile ''document'' (fileName b) d # optional_fields b"
    and "fileData b = None \<Longrightarrow> ReadFile env (filePath b) = Inr d \<Longrightarrow>
           \<exists>req. buildRequest env b = ([FileRead (filePath b)], Return (Inr req)) \<and>
             Request.Body req = FormFile ''document'' (Base (filePath b)) d # optional_fields b"
    and "fileData b = None \<Longrightarrow> ReadFile env (filePath b) = Inl e \<Longrightarrow>
           buildRequest env b = ([FileRead (filePath b)],
             Return (Inl (WrapError ''failed to read file: '' (Library e))))"
  using assms
  by (simp_all add: buildRequest_def buildFileRequest_def NewRequestWithContext_def
      optional_fields_def)

text \<open>
  C5. For a builder without a document URL, bound to a client with an HTTP client and to a
  context, whose endpoint URL is accepted: if in-memory bytes are set, whether or not a
  file path is set too, \<open>Do\<close> reads no file and sends a request whose file part
  \<open>document\<close> has those bytes as content and the supplied filename as filename; otherwise
  the file at the path is read, and the part has the file's content and the base name of
  the path as filename, or the read error is returned. In \<open>buildFileRequest\<close> itself the
  file is read exactly when no in-memory bytes are set. The base name of a path that ends
  in a non-empty name without slashes is that name, whatever directories precede it.
\<close>

theorem Do_file_part:
  assumes "documentURL b = None" and "client b = Some c" and "httpClient c = Some h"
    and "ctx b \<noteq> NilContext" and "parseURL env (baseURL c @ ''/v1/ade/parse'') = None"
  shows "(\<forall>d. fileData b = Some d \<longrightarrow>
            (\<exists>req. fst (Do env b) = [HTTPCall req] \<and>
               Request.Body req = FormFile ''document'' (fileName b) d # optional_fields b)) \<and>
         (fileData b = None \<and> filePath b \<noteq> [] \<longrightarrow>
            (case ReadFile env (filePath b) of
               Inl e \<Rightarrow>
                 Do env b = ([FileRead (filePath b)],
                   Return (Inl (WrapError ''failed to build request: ''
                                  (WrapError ''failed to read file: '' (Library e)))))
             | Inr d \<Rightarrow>
                 (\<exists>req. fst (Do env b) = [FileRead (filePath b), HTTPCall req] \<and>
                    Request.Body req
                      = FormFile ''document'' (Base (filePath b)) d # optional_fields b))) \<and>
         (\<forall>url. fst (buildFileRequest env b url)
            = (if fileData b = None then [FileRead (filePath b)] else [])) \<and>
         (\<forall>dir name. name \<noteq> [] \<and> CHR ''/'' \<notin> set name \<longrightarrow>
            Base (dir @ ''/'' @ name) = name \<and> Base name = name)"
proof (intro conjI allI impI)
  fix url
  show "fst (buildFileRequest env b url)
      = (if fileData b = None then [FileRead (filePath b)] else [])"
    by (simp add: buildFileRequest_def Let_def split: option.splits sum.splits)
next
  fix d assume fd: "fileData b = Some d"
  from buildRequest_file(1) [OF assms(1,2,4,5) fd] obtain req where
    br: "buildRequest env b = ([], Return (Inr req))"
    and body: "Request.Body req = FormFile ''document'' (fileName b) d # optional_fields b"
    by blast
  from br assms(1,2,3) fd have "fst (Do env b) = [HTTPCall req]"
    by (simp add: Do_def split: sum.splits)
  with body show "\<exists>req. fst (Do env b) = [HTTPCall req] \<and>
               Request.Body req = FormFile ''document'' (fileName b) d # optional_fields b"
    by blast
next
  assume fp: "fileData b = None \<and> filePath b \<noteq> []"
  show "case ReadFile env (filePath b) of
               Inl e \<Rightarrow>
                 Do env b = ([FileRead (filePath b)],
                   Return (Inl (WrapError ''failed to build request: ''
                                  (WrapError ''failed to read file: '' (Library e)))))
             | Inr d \<Rightarrow>
                 (\<exists>req. fst (Do env b) = [FileRead (filePath b), HTTPCall req] \<and>
                    Request.Body req
                      = FormFile ''document'' (Base (filePath b)) d # optional_fields b)"
  proof (cases "ReadFile env (filePath b)")
    case (Inl e)
    from fp buildRequest_file(3) [OF assms(1,2,4,5) _ Inl]
    have "buildRequest env b = ([FileRead (filePath b)],
             Return (Inl (WrapError ''failed to read file: '' (Library e))))"
      by simp
    with fp assms(1) Inl show ?thesis by (simp add: Do_def)
  next
    case (Inr d)
    from fp buildRequest_file(2) [OF assms(1,2,4,5) _ Inr] obtain req where
      br: "buildRequest env b = ([FileRead (filePath b)], Return (Inr req))"
      and body: "Request.Body req = FormFile ''document'' (Base (filePath b)) d # optional_fields b"
      by blast
    from br assms(1,2,3) fp have "fst (Do env b) = [FileRead (filePath b), HTTPCall req]"
      by (simp add: Do_def split: sum.splits)
    with body Inr show ?thesis by auto
  qed
next
  fix dir name :: string
  assume "name \<noteq> [] \<and> CHR ''/'' \<notin> set name"
  then show "Base (dir @ ''/'' @ name) = name" "Base name = name"
    using Base_strips_directory by blast+
qed

theorem Do_file_part_witness:
  "fst (Do sample_world sample_upload) = [HTTPCall sample_upload_request] \<and>
   Request.Body sample_upload_request = [FormFile ''document'' ''scan.pdf'' ''%PDF-1.7''] \<and>
   fst (Do sample_world sample_path_upload)
     = [FileRead ''docs/report.pdf'', HTTPCall sample_path_request] \<and>
   Request.Body sample_path_request = [FormFile ''document'' ''report.pdf'' ''%PDF-1.7''] \<and>
   Base (''docs'' @ ''/'' @ ''report.pdf'') = ''report.pdf''"
proof -
  have u: "documentURL sample_upload = None" "client sample_upload = Some sample_client"
    "httpClient sample_client = Some \<lparr>Timeout = DefaultTimeout\<rparr>"
    "ctx sample_upload \<noteq> NilContext"
    "parseURL sample_world (baseURL sample_client @ ''/v1/ade/parse'') = None"
    by (simp_all add: sample_upload_def sample_client_def sample_world_def Parse_def
        WithFile_def WithFileData_def)
  have v: "documentURL sample_path_upload = None" "client sample_path_upload = Some sample_client"
    "ctx sample_path_upload \<noteq> NilContext"
    by (simp_all add: sample_path_upload_def sample_client_def sample_world_def Parse_def
        WithFile_def)
  have fu: "fileData sample_upload = Some ''%PDF-1.7''" "fileName sample_upload = ''scan.pdf''"
    "optional_fields sample_upload = []"
    by (simp_all add: sample_upload_def Parse_def WithFile_def WithFileData_def
        optional_fields_def)
  have fv: "fileData sample_path_upload = None" "filePath sample_path_upload = ''docs/report.pdf''"
    "optional_fields sample_path_upload = []"
    "ReadFile sample_world ''docs/report.pdf'' = Inr ''%PDF-1.7''"
    by (simp_all add: sample_path_upload_def Parse_def WithFile_def optional_fields_def
        sample_world_def)
  have du: "fst (Do sample_world sample_upload) = [HTTPCall sample_upload_request]"
    by (simp add: Do_def sample_upload_built)
      (simp add: sample_upload_def sample_client_def sample_world_def Parse_def
        WithFile_def WithFileData_def sample_upload_request_def)
  have bv: "buildRequest sample_world sample_path_upload
      = ([FileRead ''docs/report.pdf''], Return (Inr sample_path_request))"
    by (simp add: buildRequest_def buildFileRequest_def NewRequestWithContext_def
      FormDataContentType_def sample_world_def sample_path_upload_def sample_path_request_def
      sample_client_def Parse_def WithFile_def Base_def IsPathSeparator_def)
  have dv: "fst (Do sample_world sample_path_upload)
      = [FileRead ''docs/report.pdf'', HTTPCall sample_path_request]"
    by (simp add: Do_def bv)
      (simp add: sample_path_upload_def sample_client_def sample_world_def Parse_def
        WithFile_def sample_path_request_def)
  from Do_file_part [OF u] Do_file_part [OF v(1,2) u(3) v(3) u(5)] fu fv du dv
  show ?thesis
    by (simp add: sample_upload_request_def sample_path_request_def)
qed

end
